theory Spec2Isabelle
  imports Main "HOL-Library.Word"
begin

section \<open>JavaScript values used by identity.ts\<close>

text \<open>
  A JavaScript string is a sequence of UTF-16 code units, and \<open>.length\<close> counts code
  units. String literals of the source are ASCII; \<open>str\<close> embeds them.
\<close>

type_synonym code_unit = "16 word"
type_synonym jsstring = "code_unit list"

definition cu :: "char \<Rightarrow> code_unit" where
  "cu c = of_nat (of_char c)"

definition str :: "string \<Rightarrow> jsstring" where
  "str s = map cu s"

text \<open>
  A \<open>Date\<close> holds a time value: an integral number of milliseconds since the epoch, or
  NaN (an Invalid Date), written \<open>None\<close>. \<open>new Date(d)\<close> for a Date \<open>d\<close> copies the time
  value through TimeClip (ECMAScript 21.4.1.31), which maps everything beyond
  8.64e15 ms to NaN.
\<close>

datatype Date = Date (time_value: "int option")

definition TimeClip :: "int option \<Rightarrow> int option" where
  "TimeClip tv =
     (case tv of
        None \<Rightarrow> None
      | Some t \<Rightarrow> if \<bar>t\<bar> > 8640000000000000 then None else Some t)"

definition new_Date_of :: "Date \<Rightarrow> Date" where
  "new_Date_of d = Date (TimeClip (time_value d))"

text \<open>The time values a Date object can hold: NaN or a clipped value.\<close>

definition Date_wf :: "Date \<Rightarrow> bool" where
  "Date_wf d = (TimeClip (time_value d) = time_value d)"

definition valid_Date :: "Date \<Rightarrow> bool" where
  "valid_Date d = (Date_wf d \<and> time_value d \<noteq> None)"

text \<open>
  The effects of the module: \<open>new Date()\<close> reads the system clock, and
  \<open>new Identity(...)\<close> constructs an object. The world carries the clock as the
  sequence of its successive readings, the number of readings taken so far and the
  number of Identity objects constructed so far.
\<close>

record world =
  clock :: "nat \<Rightarrow> Date"
  clock_reads :: nat
  constructed :: nat

definition new_Date :: "world \<Rightarrow> Date \<times> world" where
  "new_Date w = (clock w (clock_reads w), w\<lparr>clock_reads := Suc (clock_reads w)\<rparr>)"

text \<open>
  The operator \<open>||\<close> returns its right operand when the left one is falsy. An absent
  (\<open>undefined\<close>) property and the empty string are falsy; every object is truthy.
\<close>

definition or_string :: "jsstring option \<Rightarrow> jsstring \<Rightarrow> jsstring" where
  "or_string v d = (case v of None \<Rightarrow> d | Some s \<Rightarrow> if s = [] then d else s)"

definition or_object :: "'a option \<Rightarrow> 'a \<Rightarrow> 'a" where
  "or_object v d = (case v of None \<Rightarrow> d | Some x \<Rightarrow> x)"

section \<open>External collaborators\<close>

text \<open>
  Modelled from the spec: the \<open>Result\<close> type of the package @synet/patterns, which is
  not among the sources. The spec (section 6) describes it as a two-variant container:
  success carrying a value, or failure carrying a message.
\<close>

datatype 'a Result = Result_success 'a | Result_fail jsstring

fun isSuccess :: "'a Result \<Rightarrow> bool" where
  "isSuccess (Result_success _) = True"
| "isSuccess (Result_fail _) = False"

fun Result_value :: "'a Result \<Rightarrow> 'a option" where
  "Result_value (Result_success x) = Some x"
| "Result_value (Result_fail _) = None"

fun errorMessage :: "'a Result \<Rightarrow> jsstring option" where
  "errorMessage (Result_success _) = None"
| "errorMessage (Result_fail m) = Some m"

section \<open>The data model\<close>

text \<open>
  \<open>IIdentity\<close> (lines 7-19 and 141-152; \<open>IIdentityProps\<close>, lines 155-166, has the same
  shape). The credential is opaque (\<open>'c\<close>), and so are the values of the metadata
  mapping (\<open>'v\<close>). A property marked \<open>?\<close> may be absent.
  The field \<open>alias\<close> is written \<open>alias'\<close> here, and the getters are written
  \<open>get_alias\<close>, \<open>get_did\<close> and so on.
\<close>

record ('c, 'v) IIdentity =
  alias' :: jsstring
  did :: jsstring
  kid :: jsstring
  publicKeyHex :: jsstring
  privateKeyHex :: "jsstring option"
  provider :: jsstring
  credential :: 'c
  metadata :: "(jsstring \<rightharpoonup> 'v) option"
  createdAt :: Date
  version :: "jsstring option"

text \<open>The argument of \<open>create\<close> (lines 34-45 and 187-198): \<open>createdAt\<close> is optional too.\<close>

record ('c, 'v) create_props =
  p_alias :: jsstring
  p_did :: jsstring
  p_kid :: jsstring
  p_publicKeyHex :: jsstring
  p_privateKeyHex :: "jsstring option"
  p_credential :: 'c
  p_provider :: jsstring
  p_metadata :: "(jsstring \<rightharpoonup> 'v) option"
  p_createdAt :: "Date option"
  p_version :: "jsstring option"

text \<open>\<open>UnitSchema\<close> (lines 133-138), with the \<open>description\<close> the constructor writes.\<close>

datatype UnitSchema = UnitSchema
  (dna_name: jsstring)
  (dna_description: jsstring)
  (dna_version: jsstring)
  (dna_capabilities: "jsstring list option")
  (dna_children: "UnitSchema list option")

text \<open>
  An \<open>Identity\<close> object holds \<open>props\<close>, the field it inherits from \<open>ValueObject\<close>. The
  earlier revision of the class (lines 26-126) has no other field; the later one
  (lines 168-308) adds \<open>unitDNA\<close>.
\<close>

datatype ('c, 'v) Identity_r1 = Identity_r1 (props_r1: "('c, 'v) IIdentity")

record ('c, 'v) Identity =
  props :: "('c, 'v) IIdentity"
  unitDNA :: UnitSchema

text \<open>
  Modelled from the spec: the constructor of the base class \<open>ValueObject\<close> of the
  package @synet/patterns, which is not among the sources and which \<open>super(props)\<close>
  calls. It stores the record it is given as the object's \<open>props\<close> (section 6:
  immutable-property storage). The rest of each constructor is the source's (lines
  27-29 and 170-182).
\<close>

definition Identity_constructor_r1 ::
  "('c, 'v) IIdentity \<Rightarrow> world \<Rightarrow> ('c, 'v) Identity_r1 \<times> world" where
  "Identity_constructor_r1 ps w = (Identity_r1 ps, w\<lparr>constructed := Suc (constructed w)\<rparr>)"

definition Identity_constructor ::
  "('c, 'v) IIdentity \<Rightarrow> world \<Rightarrow> ('c, 'v) Identity \<times> world" where
  "Identity_constructor ps w =
     (\<lparr>props = ps,
       unitDNA = UnitSchema
         (str ''Identity Unit'')
         (str ''I can create and manage decentralized identities. call .help() to see my capabilities.'')
         (or_string (version ps) (str ''1.0.0''))
         (Some [str ''create'', str ''update'', str ''delete''])
         (Some [])\<rparr>,
      w\<lparr>constructed := Suc (constructed w)\<rparr>)"

section \<open>Validation\<close>

text \<open>
  The character class \<open>[a-zA-Z0-9_-]\<close> and the test \<open>/^[a-zA-Z0-9_-]+$/.test(s)\<close>:
  without the \<open>m\<close> flag the anchors match only at the two ends of the string, so the
  test holds exactly when the string is non-empty and every code unit is in the class.
\<close>

definition alias_char :: "code_unit \<Rightarrow> bool" where
  "alias_char c \<longleftrightarrow>
     (cu CHR ''a'' \<le> c \<and> c \<le> cu CHR ''z'') \<or>
     (cu CHR ''A'' \<le> c \<and> c \<le> cu CHR ''Z'') \<or>
     (cu CHR ''0'' \<le> c \<and> c \<le> cu CHR ''9'') \<or>
     c = cu CHR ''_'' \<or> c = cu CHR ''-''"

definition alias_regex_test :: "jsstring \<Rightarrow> bool" where
  "alias_regex_test s \<longleftrightarrow> s \<noteq> [] \<and> list_all alias_char s"

definition msg_empty :: jsstring where
  "msg_empty = str ''Vault Alias  empty''"

definition msg_chars :: jsstring where
  "msg_chars = str ''Only alphanumeric characters, numbers, dashes, and underscores are allowed in vault ID''"

definition msg_length :: jsstring where
  "msg_length = str ''Vault Alias must be between 2 and 32 characters''"

section \<open>Identity.create\<close>

text \<open>The earlier revision (lines 34-78).\<close>

definition create_r1 ::
  "('c, 'v) create_props \<Rightarrow> world \<Rightarrow> ('c, 'v) Identity_r1 Result \<times> world" where
  "create_r1 p w =
     (if p_alias p = [] then (Result_fail msg_empty, w)
      else if \<not> alias_regex_test (p_alias p) then (Result_fail msg_chars, w)
      else if length (p_alias p) < 2 \<or> length (p_alias p) > 32 then (Result_fail msg_length, w)
      else
        let (created, w1) = (case p_createdAt p of Some d \<Rightarrow> (d, w) | None \<Rightarrow> new_Date w);
            (i, w2) = Identity_constructor_r1
              \<lparr>alias' = p_alias p,
               did = p_did p,
               kid = p_kid p,
               publicKeyHex = p_publicKeyHex p,
               privateKeyHex = Some (p_publicKeyHex p),
               provider = p_provider p,
               credential = p_credential p,
               metadata = Some (or_object (p_metadata p) Map.empty),
               createdAt = created,
               version = Some (or_string (p_version p) (str ''1.0.0''))\<rparr> w1
        in (Result_success i, w2))"

text \<open>The later revision (lines 187-231).\<close>

definition create ::
  "('c, 'v) create_props \<Rightarrow> world \<Rightarrow> ('c, 'v) Identity Result \<times> world" where
  "create p w =
     (if p_alias p = [] then (Result_fail msg_empty, w)
      else if \<not> alias_regex_test (p_alias p) then (Result_fail msg_chars, w)
      else if length (p_alias p) < 2 \<or> length (p_alias p) > 32 then (Result_fail msg_length, w)
      else
        let (created, w1) = (case p_createdAt p of Some d \<Rightarrow> (new_Date_of d, w) | None \<Rightarrow> new_Date w);
            (i, w2) = Identity_constructor
              \<lparr>alias' = p_alias p,
               did = p_did p,
               kid = p_kid p,
               publicKeyHex = p_publicKeyHex p,
               privateKeyHex = p_privateKeyHex p,
               provider = p_provider p,
               credential = p_credential p,
               metadata = Some (or_object (p_metadata p) Map.empty),
               createdAt = created,
               version = Some (or_string (p_version p) (str ''1.0.0''))\<rparr> w1
        in (Result_success i, w2))"

section \<open>Accessors and serialization\<close>

text \<open>The earlier revision (lines 80-126).\<close>

definition get_alias_r1 :: "('c, 'v) Identity_r1 \<Rightarrow> jsstring" where
  "get_alias_r1 i = alias' (props_r1 i)"

definition get_did_r1 :: "('c, 'v) Identity_r1 \<Rightarrow> jsstring" where
  "get_did_r1 i = did (props_r1 i)"

definition get_kid_r1 :: "('c, 'v) Identity_r1 \<Rightarrow> jsstring" where
  "get_kid_r1 i = kid (props_r1 i)"

definition get_publicKeyHex_r1 :: "('c, 'v) Identity_r1 \<Rightarrow> jsstring" where
  "get_publicKeyHex_r1 i = publicKeyHex (props_r1 i)"

definition get_privateKeyHex_r1 :: "('c, 'v) Identity_r1 \<Rightarrow> jsstring option" where
  "get_privateKeyHex_r1 i = privateKeyHex (props_r1 i)"

definition get_provider_r1 :: "('c, 'v) Identity_r1 \<Rightarrow> jsstring" where
  "get_provider_r1 i = provider (props_r1 i)"

definition get_credential_r1 :: "('c, 'v) Identity_r1 \<Rightarrow> 'c" where
  "get_credential_r1 i = credential (props_r1 i)"

definition get_metadata_r1 :: "('c, 'v) Identity_r1 \<Rightarrow> (jsstring \<rightharpoonup> 'v)" where
  "get_metadata_r1 i = or_object (metadata (props_r1 i)) Map.empty"

definition get_createdAt_r1 :: "('c, 'v) Identity_r1 \<Rightarrow> Date" where
  "get_createdAt_r1 i = createdAt (props_r1 i)"

definition toJSON_r1 :: "('c, 'v) Identity_r1 \<Rightarrow> ('c, 'v) IIdentity" where
  "toJSON_r1 i =
     \<lparr>alias' = alias' (props_r1 i),
      did = did (props_r1 i),
      kid = kid (props_r1 i),
      publicKeyHex = publicKeyHex (props_r1 i),
      privateKeyHex = privateKeyHex (props_r1 i),
      provider = provider (props_r1 i),
      credential = credential (props_r1 i),
      metadata = Some (or_object (metadata (props_r1 i)) Map.empty),
      createdAt = createdAt (props_r1 i),
      version = version (props_r1 i)\<rparr>"

text \<open>
  \<open>toString\<close> is \<open>JSON.stringify(this.props)\<close>. The encoder is the host's; it is a
  parameter here, returning \<open>None\<close> where \<open>JSON.stringify\<close> throws (a cyclic metadata
  value, for one).
\<close>

definition toString_r1 ::
  "(('c, 'v) IIdentity \<Rightarrow> jsstring option) \<Rightarrow> ('c, 'v) Identity_r1 \<Rightarrow> jsstring option" where
  "toString_r1 stringify i = stringify (props_r1 i)"

text \<open>The later revision (lines 233-292).\<close>

definition whoami :: "('c, 'v) Identity \<Rightarrow> jsstring" where
  "whoami i = dna_name (unitDNA i)"

definition dna :: "('c, 'v) Identity \<Rightarrow> UnitSchema" where
  "dna i = unitDNA i"

definition get_alias :: "('c, 'v) Identity \<Rightarrow> jsstring" where
  "get_alias i = alias' (props i)"

definition get_did :: "('c, 'v) Identity \<Rightarrow> jsstring" where
  "get_did i = did (props i)"

definition get_kid :: "('c, 'v) Identity \<Rightarrow> jsstring" where
  "get_kid i = kid (props i)"

definition get_publicKeyHex :: "('c, 'v) Identity \<Rightarrow> jsstring" where
  "get_publicKeyHex i = publicKeyHex (props i)"

definition get_privateKeyHex :: "('c, 'v) Identity \<Rightarrow> jsstring option" where
  "get_privateKeyHex i = privateKeyHex (props i)"

definition get_provider :: "('c, 'v) Identity \<Rightarrow> jsstring" where
  "get_provider i = provider (props i)"

definition get_credential :: "('c, 'v) Identity \<Rightarrow> 'c" where
  "get_credential i = credential (props i)"

definition get_metadata :: "('c, 'v) Identity \<Rightarrow> (jsstring \<rightharpoonup> 'v)" where
  "get_metadata i = or_object (metadata (props i)) Map.empty"

definition get_createdAt :: "('c, 'v) Identity \<Rightarrow> Date" where
  "get_createdAt i = createdAt (props i)"

definition get_version :: "('c, 'v) Identity \<Rightarrow> jsstring" where
  "get_version i = or_string (version (props i)) (str ''1.0.0'')"

definition toJSON :: "('c, 'v) Identity \<Rightarrow> ('c, 'v) IIdentity" where
  "toJSON i =
     \<lparr>alias' = alias' (props i),
      did = did (props i),
      kid = kid (props i),
      publicKeyHex = publicKeyHex (props i),
      privateKeyHex = privateKeyHex (props i),
      provider = provider (props i),
      credential = credential (props i),
      metadata = Some (or_object (metadata (props i)) Map.empty),
      createdAt = createdAt (props i),
      version = version (props i)\<rparr>"

definition toString ::
  "(('c, 'v) IIdentity \<Rightarrow> jsstring option) \<Rightarrow> ('c, 'v) Identity \<Rightarrow> jsstring option" where
  "toString stringify i = stringify (props i)"

text \<open>
  A method call on an object returns a value and leaves the receiver in some state.
  None of the accessors and serializers assigns to \<open>this\<close>, so each call returns the
  receiver as it found it. \<open>calls\<close> runs a sequence of calls on one object.
\<close>

datatype ('c, 'v) returned =
  R_string jsstring
| R_optional_string "jsstring option"
| R_credential 'c
| R_metadata "jsstring \<rightharpoonup> 'v"
| R_Date Date
| R_UnitSchema UnitSchema
| R_IIdentity "('c, 'v) IIdentity"

datatype operation_r1 =
  M1_alias | M1_did | M1_kid | M1_publicKeyHex | M1_privateKeyHex | M1_provider
| M1_credential | M1_metadata | M1_createdAt | M1_toString | M1_toJSON

fun call_r1 ::
  "(('c, 'v) IIdentity \<Rightarrow> jsstring option) \<Rightarrow> operation_r1 \<Rightarrow> ('c, 'v) Identity_r1 \<Rightarrow>
     ('c, 'v) returned \<times> ('c, 'v) Identity_r1" where
  "call_r1 sf M1_alias this = (R_string (get_alias_r1 this), this)"
| "call_r1 sf M1_did this = (R_string (get_did_r1 this), this)"
| "call_r1 sf M1_kid this = (R_string (get_kid_r1 this), this)"
| "call_r1 sf M1_publicKeyHex this = (R_string (get_publicKeyHex_r1 this), this)"
| "call_r1 sf M1_privateKeyHex this = (R_optional_string (get_privateKeyHex_r1 this), this)"
| "call_r1 sf M1_provider this = (R_string (get_provider_r1 this), this)"
| "call_r1 sf M1_credential this = (R_credential (get_credential_r1 this), this)"
| "call_r1 sf M1_metadata this = (R_metadata (get_metadata_r1 this), this)"
| "call_r1 sf M1_createdAt this = (R_Date (get_createdAt_r1 this), this)"
| "call_r1 sf M1_toString this = (R_optional_string (toString_r1 sf this), this)"
| "call_r1 sf M1_toJSON this = (R_IIdentity (toJSON_r1 this), this)"

fun calls_r1 ::
  "(('c, 'v) IIdentity \<Rightarrow> jsstring option) \<Rightarrow> operation_r1 list \<Rightarrow> ('c, 'v) Identity_r1 \<Rightarrow>
     ('c, 'v) returned list \<times> ('c, 'v) Identity_r1" where
  "calls_r1 sf [] this = ([], this)"
| "calls_r1 sf (m # ms) this =
     (let (r, this1) = call_r1 sf m this;
          (rs, this2) = calls_r1 sf ms this1
      in (r # rs, this2))"

datatype operation =
  M_whoami | M_dna | M_alias | M_did | M_kid | M_publicKeyHex | M_privateKeyHex
| M_provider | M_credential | M_metadata | M_createdAt | M_version | M_toString | M_toJSON

fun call ::
  "(('c, 'v) IIdentity \<Rightarrow> jsstring option) \<Rightarrow> operation \<Rightarrow> ('c, 'v) Identity \<Rightarrow>
     ('c, 'v) returned \<times> ('c, 'v) Identity" where
  "call sf M_whoami this = (R_string (whoami this), this)"
| "call sf M_dna this = (R_UnitSchema (dna this), this)"
| "call sf M_alias this = (R_string (get_alias this), this)"
| "call sf M_did this = (R_string (get_did this), this)"
| "call sf M_kid this = (R_string (get_kid this), this)"
| "call sf M_publicKeyHex this = (R_string (get_publicKeyHex this), this)"
| "call sf M_privateKeyHex this = (R_optional_string (get_privateKeyHex this), this)"
| "call sf M_provider this = (R_string (get_provider this), this)"
| "call sf M_credential this = (R_credential (get_credential this), this)"
| "call sf M_metadata this = (R_metadata (get_metadata this), this)"
| "call sf M_createdAt this = (R_Date (get_createdAt this), this)"
| "call sf M_version this = (R_string (get_version this), this)"
| "call sf M_toString this = (R_optional_string (toString sf this), this)"
| "call sf M_toJSON this = (R_IIdentity (toJSON this), this)"

fun calls ::
  "(('c, 'v) IIdentity \<Rightarrow> jsstring option) \<Rightarrow> operation list \<Rightarrow> ('c, 'v) Identity \<Rightarrow>
     ('c, 'v) returned list \<times> ('c, 'v) Identity" where
  "calls sf [] this = ([], this)"
| "calls sf (m # ms) this =
     (let (r, this1) = call sf m this;
          (rs, this2) = calls sf ms this1
      in (r # rs, this2))"

section \<open>Terms of the specification\<close>

text \<open>
  A valid alias, as the spec has it (section 3): it matches \<open>^[A-Za-z0-9_-]+$\<close> and its
  length is in [2, 32].
\<close>

definition valid_alias :: "jsstring \<Rightarrow> bool" where
  "valid_alias s \<longleftrightarrow> alias_regex_test s \<and> 2 \<le> length s \<and> length s \<le> 32"

text \<open>
  An alias the spec rejects (section 8): it is empty, contains a character outside
  \<open>[A-Za-z0-9_-]\<close>, or has length below 2 or above 32.
\<close>

definition invalid_alias :: "jsstring \<Rightarrow> bool" where
  "invalid_alias s \<longleftrightarrow>
     s = [] \<or> (\<exists>c \<in> set s. \<not> alias_char c) \<or> length s < 2 \<or> length s > 32"

text \<open>
  The defaulting of the spec (section 4.1): \<open>version\<close> defaulted to "1.0.0" if absent.
\<close>

definition spec_defaulted_version :: "jsstring option \<Rightarrow> jsstring" where
  "spec_defaulted_version v = (case v of None \<Rightarrow> str ''1.0.0'' | Some s \<Rightarrow> s)"

text \<open>
  Reconstruction from a structural snapshot: the argument of \<open>create\<close> that carries the
  fields of the snapshot, each present.
\<close>

definition props_of_snapshot :: "('c, 'v) IIdentity \<Rightarrow> ('c, 'v) create_props" where
  "props_of_snapshot s =
     \<lparr>p_alias = alias' s,
      p_did = did s,
      p_kid = kid s,
      p_publicKeyHex = publicKeyHex s,
      p_privateKeyHex = privateKeyHex s,
      p_credential = credential s,
      p_provider = provider s,
      p_metadata = metadata s,
      p_createdAt = Some (createdAt s),
      p_version = version s\<rparr>"

section \<open>Sample inputs\<close>

text \<open>
  A world whose clock has not been read, and the input of the spec's first example
  scenario; the credential and the metadata values are of type \<open>nat\<close> here.
\<close>

definition sample_world :: world where
  "sample_world =
     \<lparr>clock = (\<lambda>n. Date (Some (1700000000000 + int n))), clock_reads = 0, constructed = 0\<rparr>"

definition sample_props :: "(nat, nat) create_props" where
  "sample_props =
     \<lparr>p_alias = str ''user-001'',
      p_did = str ''did:key:z6Mk'',
      p_kid = str ''key-1'',
      p_publicKeyHex = str ''0xabc'',
      p_privateKeyHex = None,
      p_credential = 7,
      p_provider = str ''did:key'',
      p_metadata = None,
      p_createdAt = None,
      p_version = None\<rparr>"

text \<open>The timestamp 2023-01-01T00:00:00Z of the spec's fifth example scenario.\<close>

definition date_2023 :: Date where
  "date_2023 = Date (Some 1672531200000)"

text \<open>
  A second input with the same alias and every other field different, also in the
  types of the credential and of the metadata values.
\<close>

definition sample_props_other :: "(bool, unit) create_props" where
  "sample_props_other =
     \<lparr>p_alias = str ''user-001'',
      p_did = str ''did:web:example.com'',
      p_kid = str ''key-2'',
      p_publicKeyHex = str ''0xdef'',
      p_privateKeyHex = Some (str ''0x123''),
      p_credential = True,
      p_provider = str ''did:web'',
      p_metadata = Some [str ''k'' \<mapsto> ()],
      p_createdAt = Some date_2023,
      p_version = Some (str ''2.0.0'')\<rparr>"

section \<open>Basic facts\<close>

lemma TimeClip_idem: "TimeClip (TimeClip tv) = TimeClip tv"
  by (simp add: TimeClip_def split: option.splits)

lemma Date_wf_new_Date_of: "Date_wf d \<Longrightarrow> new_Date_of d = d"
  by (cases d) (simp add: Date_wf_def new_Date_of_def)

lemma Date_wf_new_Date_of_self: "Date_wf (new_Date_of d)"
  by (simp add: Date_wf_def new_Date_of_def TimeClip_idem)

lemma valid_Date_new_Date_of: "valid_Date (new_Date_of d) \<longleftrightarrow> valid_Date d"
  by (cases d)
    (auto simp: valid_Date_def Date_wf_def new_Date_of_def TimeClip_def
      split: option.splits if_splits)

lemma valid_alias_iff:
  "valid_alias s \<longleftrightarrow> s \<noteq> [] \<and> list_all alias_char s \<and> 2 \<le> length s \<and> length s \<le> 32"
  by (auto simp: valid_alias_def alias_regex_test_def)

lemma invalid_alias_iff: "invalid_alias s \<longleftrightarrow> \<not> valid_alias s"
  by (auto simp: invalid_alias_def valid_alias_iff list_all_iff)

lemma messages_distinct:
  "msg_empty \<noteq> msg_chars" "msg_empty \<noteq> msg_length" "msg_chars \<noteq> msg_length"
  "msg_empty \<noteq> []" "msg_chars \<noteq> []" "msg_length \<noteq> []"
  by (simp_all add: msg_empty_def msg_chars_def msg_length_def str_def cu_def)

text \<open>What \<open>create\<close> returns for a valid alias, in each revision.\<close>

lemma create_r1_valid:
  assumes "valid_alias (p_alias p)"
  shows "create_r1 p w =
    (Result_success (Identity_r1
       \<lparr>alias' = p_alias p, did = p_did p, kid = p_kid p, publicKeyHex = p_publicKeyHex p,
        privateKeyHex = Some (p_publicKeyHex p), provider = p_provider p,
        credential = p_credential p,
        metadata = Some (or_object (p_metadata p) Map.empty),
        createdAt = (case p_createdAt p of Some d \<Rightarrow> d | None \<Rightarrow> clock w (clock_reads w)),
        version = Some (or_string (p_version p) (str ''1.0.0''))\<rparr>),
     w\<lparr>clock_reads := (case p_createdAt p of Some d \<Rightarrow> clock_reads w | None \<Rightarrow> Suc (clock_reads w)),
       constructed := Suc (constructed w)\<rparr>)"
  using assms
  by (auto simp: create_r1_def valid_alias_def alias_regex_test_def new_Date_def
      Identity_constructor_r1_def split: option.splits)

lemma create_valid:
  assumes "valid_alias (p_alias p)"
  shows "create p w =
    (Result_success
       \<lparr>props = \<lparr>alias' = p_alias p, did = p_did p, kid = p_kid p, publicKeyHex = p_publicKeyHex p,
        privateKeyHex = p_privateKeyHex p, provider = p_provider p,
        credential = p_credential p,
        metadata = Some (or_object (p_metadata p) Map.empty),
        createdAt = (case p_createdAt p of Some d \<Rightarrow> new_Date_of d | None \<Rightarrow> clock w (clock_reads w)),
        version = Some (or_string (p_version p) (str ''1.0.0''))\<rparr>,
        unitDNA = UnitSchema
         (str ''Identity Unit'')
         (str ''I can create and manage decentralized identities. call .help() to see my capabilities.'')
         (or_string (p_version p) (str ''1.0.0''))
         (Some [str ''create'', str ''update'', str ''delete''])
         (Some [])\<rparr>,
     w\<lparr>clock_reads := (case p_createdAt p of Some d \<Rightarrow> clock_reads w | None \<Rightarrow> Suc (clock_reads w)),
       constructed := Suc (constructed w)\<rparr>)"
  using assms
  by (auto simp: create_def valid_alias_def alias_regex_test_def new_Date_def
      Identity_constructor_def or_string_def str_def split: option.splits)

text \<open>What \<open>create\<close> returns for any other alias.\<close>

lemma create_r1_invalid:
  assumes "\<not> valid_alias (p_alias p)"
  shows "create_r1 p w =
    (Result_fail (if p_alias p = [] then msg_empty
                  else if \<not> alias_regex_test (p_alias p) then msg_chars else msg_length), w)"
  using assms by (auto simp: create_r1_def valid_alias_def)

lemma create_invalid:
  assumes "\<not> valid_alias (p_alias p)"
  shows "create p w =
    (Result_fail (if p_alias p = [] then msg_empty
                  else if \<not> alias_regex_test (p_alias p) then msg_chars else msg_length), w)"
  using assms by (auto simp: create_def valid_alias_def)

lemma sample_alias_valid: "valid_alias (p_alias sample_props)"
  by (simp add: sample_props_def valid_alias_def alias_regex_test_def alias_char_def
      str_def cu_def)

lemma sample_other_alias_valid: "valid_alias (p_alias sample_props_other)"
  using sample_alias_valid by (simp add: sample_props_def sample_props_other_def)

lemma date_2023_wf: "Date_wf date_2023"
  by (simp add: Date_wf_def date_2023_def TimeClip_def)

lemma create_r1_success_valid:
  "create_r1 p w = (Result_success i, w') \<Longrightarrow> valid_alias (p_alias p)"
  by (cases "valid_alias (p_alias p)") (simp_all add: create_r1_invalid)

lemma create_success_valid:
  "create p w = (Result_success i, w') \<Longrightarrow> valid_alias (p_alias p)"
  by (cases "valid_alias (p_alias p)") (simp_all add: create_invalid)

lemma or_string_default_fixed:
  "or_string (Some (or_string v (str ''1.0.0''))) (str ''1.0.0'') = or_string v (str ''1.0.0'')"
  by (simp add: or_string_def str_def split: option.splits)

text \<open>A call, and so a sequence of calls, returns the receiver unchanged.\<close>

lemma snd_call_r1: "snd (call_r1 sf m this) = this"
  by (cases m) simp_all

lemma snd_call: "snd (call sf m this) = this"
  by (cases m) simp_all

lemma snd_calls_r1: "snd (calls_r1 sf ms this) = this"
proof (induction ms)
  case Nil
  show ?case by simp
next
  case (Cons m ms)
  have "snd (call_r1 sf m this) = this" by (rule snd_call_r1)
  with Cons show ?case by (simp add: split_beta)
qed

lemma snd_calls: "snd (calls sf ms this) = this"
proof (induction ms)
  case Nil
  show ?case by simp
next
  case (Cons m ms)
  have "snd (call sf m this) = this" by (rule snd_call)
  with Cons show ?case by (simp add: split_beta)
qed

section \<open>Validation of the alias\<close>

text \<open>
  Claim C3. \<open>Identity.create\<close> returns a failure result for every alias that is empty,
  contains a character outside \<open>[A-Za-z0-9_-]\<close>, or has length below 2 or above 32,
  whatever the other fields and the world are; for every other alias it returns a
  success result. So the alias checks are the only cause of a validation failure.
  Both revisions of \<open>create\<close> behave so.
\<close>

theorem create_fails_iff_alias_invalid:
  "(invalid_alias (p_alias p) \<longrightarrow>
      (\<exists>m. fst (create_r1 p w) = Result_fail m) \<and> (\<exists>m. fst (create p w) = Result_fail m)) \<and>
   (\<not> invalid_alias (p_alias p) \<longrightarrow>
      (\<exists>i. fst (create_r1 p w) = Result_success i) \<and> (\<exists>i. fst (create p w) = Result_success i))"
  by (simp add: invalid_alias_iff create_valid create_r1_valid create_invalid create_r1_invalid)

theorem create_fails_iff_alias_invalid_witness:
  "invalid_alias (str ''bad alias!'') \<and>
   fst (create (sample_props\<lparr>p_alias := str ''bad alias!''\<rparr>) sample_world) = Result_fail msg_chars \<and>
   \<not> invalid_alias (str ''user-001'') \<and>
   isSuccess (fst (create sample_props sample_world))"
proof -
  have bad: "invalid_alias (p_alias (sample_props\<lparr>p_alias := str ''bad alias!''\<rparr>))"
    by (simp add: invalid_alias_def alias_char_def str_def cu_def)
  have good: "\<not> invalid_alias (p_alias sample_props)"
    by (simp add: invalid_alias_iff sample_alias_valid)
  from create_fails_iff_alias_invalid [of "sample_props\<lparr>p_alias := str ''bad alias!''\<rparr>" sample_world] bad
  obtain m where m:
    "fst (create (sample_props\<lparr>p_alias := str ''bad alias!''\<rparr>) sample_world) = Result_fail m"
    by blast
  from create_fails_iff_alias_invalid [of sample_props sample_world] good
  obtain i where i: "fst (create sample_props sample_world) = Result_success i"
    by blast
  have "m = msg_chars"
    using m by (simp add: create_def alias_regex_test_def alias_char_def str_def cu_def)
  with m i bad good show ?thesis
    by (simp add: sample_props_def)
qed

text \<open>
  Claim C4. \<open>Identity.create\<close> checks, in this order and stopping at the first
  failure: that the alias is not empty, that it has no character outside the allowed
  class, that its length is within bounds. An empty alias gets the first message, a
  non-empty alias with a disallowed character gets the second one whatever its length,
  and only an alias of allowed characters can get the third. The three messages are
  pairwise distinct, so the message for the empty alias differs from the other two. A
  failing call leaves the world as it was. Both revisions behave so.
\<close>

theorem create_validation_order:
  "(p_alias p = [] \<longrightarrow>
      create_r1 p w = (Result_fail msg_empty, w) \<and> create p w = (Result_fail msg_empty, w)) \<and>
   (p_alias p \<noteq> [] \<and> (\<exists>c \<in> set (p_alias p). \<not> alias_char c) \<longrightarrow>
      create_r1 p w = (Result_fail msg_chars, w) \<and> create p w = (Result_fail msg_chars, w)) \<and>
   (p_alias p \<noteq> [] \<and> list_all alias_char (p_alias p) \<and>
      (length (p_alias p) < 2 \<or> length (p_alias p) > 32) \<longrightarrow>
      create_r1 p w = (Result_fail msg_length, w) \<and> create p w = (Result_fail msg_length, w)) \<and>
   msg_empty \<noteq> msg_chars \<and> msg_empty \<noteq> msg_length \<and> msg_chars \<noteq> msg_length"
  by (auto simp: create_def create_r1_def alias_regex_test_def list_all_iff messages_distinct)

theorem create_validation_order_witness:
  "create (sample_props\<lparr>p_alias := []\<rparr>) sample_world = (Result_fail msg_empty, sample_world) \<and>
   create (sample_props\<lparr>p_alias := str ''!''\<rparr>) sample_world = (Result_fail msg_chars, sample_world) \<and>
   create (sample_props\<lparr>p_alias := str ''u''\<rparr>) sample_world = (Result_fail msg_length, sample_world) \<and>
   create_r1 (sample_props\<lparr>p_alias := str ''u''\<rparr>) sample_world = (Result_fail msg_length, sample_world)"
  using create_validation_order [of "sample_props\<lparr>p_alias := []\<rparr>" sample_world]
    create_validation_order [of "sample_props\<lparr>p_alias := str ''!''\<rparr>" sample_world]
    create_validation_order [of "sample_props\<lparr>p_alias := str ''u''\<rparr>" sample_world]
  by (simp add: alias_char_def str_def cu_def)

text \<open>
  Claim C10. The outcome of validation depends on the alias only: two calls of
  \<open>Identity.create\<close> whose inputs have the same alias, and differ in any way in the
  other fields, in the types of the credential and of the metadata, and in the world
  they run in, both succeed or both fail, and when they fail their messages are the
  same. Both revisions behave so.
\<close>

theorem create_outcome_depends_on_alias_only:
  fixes p1 :: "('c1, 'v1) create_props" and p2 :: "('c2, 'v2) create_props"
  assumes "p_alias p1 = p_alias p2"
  shows "(isSuccess (fst (create_r1 p1 w1)) \<longleftrightarrow> isSuccess (fst (create_r1 p2 w2))) \<and>
         errorMessage (fst (create_r1 p1 w1)) = errorMessage (fst (create_r1 p2 w2)) \<and>
         (isSuccess (fst (create p1 w1)) \<longleftrightarrow> isSuccess (fst (create p2 w2))) \<and>
         errorMessage (fst (create p1 w1)) = errorMessage (fst (create p2 w2))"
proof (cases "valid_alias (p_alias p1)")
  case True
  with assms show ?thesis by (simp add: create_valid create_r1_valid)
next
  case False
  with assms show ?thesis by (simp add: create_invalid create_r1_invalid)
qed

theorem create_outcome_depends_on_alias_only_witness:
  "p_alias sample_props = p_alias sample_props_other \<and>
   isSuccess (fst (create sample_props sample_world)) \<and>
   isSuccess (fst (create sample_props_other (sample_world\<lparr>clock_reads := 5\<rparr>))) \<and>
   errorMessage (fst (create sample_props_other (sample_world\<lparr>clock_reads := 5\<rparr>))) = None"
proof -
  have eq: "p_alias sample_props = p_alias sample_props_other"
    by (simp add: sample_props_def sample_props_other_def)
  have "isSuccess (fst (create sample_props sample_world))"
    by (simp add: create_valid sample_alias_valid)
  with create_outcome_depends_on_alias_only
    [OF eq, of sample_world "sample_world\<lparr>clock_reads := 5\<rparr>"] eq
  show ?thesis
    by (cases "fst (create sample_props_other (sample_world\<lparr>clock_reads := 5\<rparr>))") simp_all
qed

section \<open>The result of create\<close>

text \<open>
  Claim C8. For every input and every world \<open>Identity.create\<close> returns, and what it
  returns is one of two things. Either a success result that wraps a fully constructed
  Identity: exactly one object has been constructed, its alias is valid, and its
  metadata and version are present. Or a failure result that carries one of the three
  messages of the source, none of them empty; then the world is as it was, so no
  Identity has been constructed, and the result holds no value. The model has no
  exception branch because the source has no throw on any path. Both revisions behave
  so.
\<close>

theorem create_returns_result:
  "((\<exists>i w'. create_r1 p w = (Result_success i, w') \<and> constructed w' = Suc (constructed w) \<and>
        valid_alias (get_alias_r1 i) \<and> metadata (props_r1 i) \<noteq> None \<and>
        version (props_r1 i) \<noteq> None) \<or>
    (\<exists>m. create_r1 p w = (Result_fail m, w) \<and> m \<in> {msg_empty, msg_chars, msg_length} \<and> m \<noteq> [] \<and>
        Result_value (fst (create_r1 p w)) = None)) \<and>
   ((\<exists>i w'. create p w = (Result_success i, w') \<and> constructed w' = Suc (constructed w) \<and>
        valid_alias (get_alias i) \<and> metadata (props i) \<noteq> None \<and>
        version (props i) \<noteq> None) \<or>
    (\<exists>m. create p w = (Result_fail m, w) \<and> m \<in> {msg_empty, msg_chars, msg_length} \<and> m \<noteq> [] \<and>
        Result_value (fst (create p w)) = None))"
proof (cases "valid_alias (p_alias p)")
  case True
  then show ?thesis
    by (simp add: create_valid create_r1_valid get_alias_def get_alias_r1_def)
next
  case False
  then show ?thesis
    by (simp add: create_invalid create_r1_invalid messages_distinct)
qed

theorem create_returns_result_witness:
  "isSuccess (fst (create sample_props sample_world)) \<and>
   constructed (snd (create sample_props sample_world)) = 1 \<and>
   create (sample_props\<lparr>p_alias := str ''u''\<rparr>) sample_world = (Result_fail msg_length, sample_world)"
proof -
  have u: "\<not> valid_alias (p_alias (sample_props\<lparr>p_alias := str ''u''\<rparr>))"
    by (simp add: valid_alias_def str_def)
  have r: "alias_regex_test (str ''u'')"
    by (simp add: alias_regex_test_def alias_char_def str_def cu_def)
  from create_returns_result [of sample_props sample_world]
  obtain i w' where "create sample_props sample_world = (Result_success i, w')"
    "constructed w' = Suc (constructed sample_world)"
    by (auto simp: create_valid [OF sample_alias_valid])
  then have a: "isSuccess (fst (create sample_props sample_world)) \<and>
    constructed (snd (create sample_props sample_world)) = 1"
    by (simp add: sample_world_def)
  have b: "create (sample_props\<lparr>p_alias := str ''u''\<rparr>) sample_world =
      (Result_fail msg_length, sample_world)"
    using r unfolding create_invalid [OF u] by (simp add: str_def)
  from a b show ?thesis by simp
qed

text \<open>
  Claim C1. For every successful call of \<open>Identity.create\<close> the stored
  \<open>privateKeyHex\<close> should be the one supplied, absent when the input omits it. The
  earlier revision (line 71) stores the supplied \<open>publicKeyHex\<close> instead: for the
  input of the spec's first example, which has no private key, the accessor and the
  snapshot both give "0xabc", the public key. The later revision (line 224) stores
  what was supplied, here nothing.
\<close>

theorem create_r1_stores_publicKeyHex_as_privateKeyHex:
  "p_privateKeyHex sample_props = None \<and>
   isSuccess (fst (create_r1 sample_props sample_world)) \<and>
   get_privateKeyHex_r1 (the (Result_value (fst (create_r1 sample_props sample_world)))) =
     Some (str ''0xabc'') \<and>
   privateKeyHex (toJSON_r1 (the (Result_value (fst (create_r1 sample_props sample_world))))) =
     Some (str ''0xabc'') \<and>
   get_privateKeyHex (the (Result_value (fst (create sample_props sample_world)))) = None"
  by (simp add: create_valid create_r1_valid sample_alias_valid get_privateKeyHex_def
      get_privateKeyHex_r1_def toJSON_r1_def) (simp add: sample_props_def)

text \<open>
  Claim C2, as amended. For every input whose alias is valid \<open>Identity.create\<close>
  returns a success result, and on the resulting instance: \<open>alias\<close>, \<open>did\<close>, \<open>kid\<close>,
  \<open>publicKeyHex\<close>, \<open>provider\<close> and \<open>credential\<close> return the input values;
  \<open>metadata\<close> returns the input mapping, or the empty mapping when it is omitted;
  \<open>createdAt\<close> returns the current time when it is omitted, and otherwise the supplied
  Date (in the later revision a copy made by \<open>new Date\<close>, equal to it for every time
  value a Date can hold); \<open>version\<close> returns the input version when that is a
  non-empty string, and "1.0.0" when it is omitted or the empty string; and in the
  later revision \<open>privateKeyHex\<close> returns the input value. Nothing is said here of
  \<open>privateKeyHex\<close> in the earlier revision, which has no \<open>version\<close> accessor either.
\<close>

theorem create_accessors_return_defaulted_input:
  assumes "valid_alias (p_alias p)"
  shows
   "(\<exists>i1 w1. create_r1 p w = (Result_success i1, w1) \<and>
       get_alias_r1 i1 = p_alias p \<and> get_did_r1 i1 = p_did p \<and> get_kid_r1 i1 = p_kid p \<and>
       get_publicKeyHex_r1 i1 = p_publicKeyHex p \<and> get_provider_r1 i1 = p_provider p \<and>
       get_credential_r1 i1 = p_credential p \<and>
       get_metadata_r1 i1 = (case p_metadata p of None \<Rightarrow> Map.empty | Some m \<Rightarrow> m) \<and>
       get_createdAt_r1 i1 = (case p_createdAt p of None \<Rightarrow> clock w (clock_reads w) | Some d \<Rightarrow> d)) \<and>
    (\<exists>i w'. create p w = (Result_success i, w') \<and>
       get_alias i = p_alias p \<and> get_did i = p_did p \<and> get_kid i = p_kid p \<and>
       get_publicKeyHex i = p_publicKeyHex p \<and> get_privateKeyHex i = p_privateKeyHex p \<and>
       get_provider i = p_provider p \<and> get_credential i = p_credential p \<and>
       get_metadata i = (case p_metadata p of None \<Rightarrow> Map.empty | Some m \<Rightarrow> m) \<and>
       get_createdAt i =
         (case p_createdAt p of None \<Rightarrow> clock w (clock_reads w) | Some d \<Rightarrow> new_Date_of d) \<and>
       (\<forall>d. p_createdAt p = Some d \<and> Date_wf d \<longrightarrow> get_createdAt i = d) \<and>
       get_version i =
         (case p_version p of None \<Rightarrow> str ''1.0.0''
          | Some v \<Rightarrow> if v = [] then str ''1.0.0'' else v))"
proof (intro conjI)
  show "\<exists>i1 w1. create_r1 p w = (Result_success i1, w1) \<and>
       get_alias_r1 i1 = p_alias p \<and> get_did_r1 i1 = p_did p \<and> get_kid_r1 i1 = p_kid p \<and>
       get_publicKeyHex_r1 i1 = p_publicKeyHex p \<and> get_provider_r1 i1 = p_provider p \<and>
       get_credential_r1 i1 = p_credential p \<and>
       get_metadata_r1 i1 = (case p_metadata p of None \<Rightarrow> Map.empty | Some m \<Rightarrow> m) \<and>
       get_createdAt_r1 i1 = (case p_createdAt p of None \<Rightarrow> clock w (clock_reads w) | Some d \<Rightarrow> d)"
    by (simp add: create_r1_valid [OF assms] get_alias_r1_def get_did_r1_def get_kid_r1_def
        get_publicKeyHex_r1_def get_provider_r1_def get_credential_r1_def get_metadata_r1_def
        get_createdAt_r1_def or_object_def split: option.splits)
next
  show "\<exists>i w'. create p w = (Result_success i, w') \<and>
       get_alias i = p_alias p \<and> get_did i = p_did p \<and> get_kid i = p_kid p \<and>
       get_publicKeyHex i = p_publicKeyHex p \<and> get_privateKeyHex i = p_privateKeyHex p \<and>
       get_provider i = p_provider p \<and> get_credential i = p_credential p \<and>
       get_metadata i = (case p_metadata p of None \<Rightarrow> Map.empty | Some m \<Rightarrow> m) \<and>
       get_createdAt i =
         (case p_createdAt p of None \<Rightarrow> clock w (clock_reads w) | Some d \<Rightarrow> new_Date_of d) \<and>
       (\<forall>d. p_createdAt p = Some d \<and> Date_wf d \<longrightarrow> get_createdAt i = d) \<and>
       get_version i =
         (case p_version p of None \<Rightarrow> str ''1.0.0''
          | Some v \<Rightarrow> if v = [] then str ''1.0.0'' else v)"
    by (simp add: create_valid [OF assms] get_alias_def get_did_def get_kid_def
        get_publicKeyHex_def get_privateKeyHex_def get_provider_def get_credential_def
        get_metadata_def get_createdAt_def get_version_def or_object_def or_string_def
        Date_wf_new_Date_of str_def split: option.splits)
qed

theorem create_accessors_return_defaulted_input_witness:
  "get_alias (the (Result_value (fst (create sample_props_other sample_world)))) = str ''user-001'' \<and>
   get_privateKeyHex (the (Result_value (fst (create sample_props_other sample_world)))) =
     Some (str ''0x123'') \<and>
   get_version (the (Result_value (fst (create sample_props_other sample_world)))) = str ''2.0.0'' \<and>
   get_createdAt (the (Result_value (fst (create sample_props_other sample_world)))) = date_2023 \<and>
   get_version (the (Result_value (fst (create sample_props sample_world)))) = str ''1.0.0''"
proof -
  from create_accessors_return_defaulted_input [OF sample_other_alias_valid, of sample_world]
  obtain i w' where "create sample_props_other sample_world = (Result_success i, w')"
    "get_alias i = p_alias sample_props_other"
    "get_privateKeyHex i = p_privateKeyHex sample_props_other"
    "\<forall>d. p_createdAt sample_props_other = Some d \<and> Date_wf d \<longrightarrow> get_createdAt i = d"
    "get_version i = (case p_version sample_props_other of None \<Rightarrow> str ''1.0.0''
          | Some v \<Rightarrow> if v = [] then str ''1.0.0'' else v)"
    by blast
  moreover
  from create_accessors_return_defaulted_input [OF sample_alias_valid, of sample_world]
  obtain j w'' where "create sample_props sample_world = (Result_success j, w'')"
    "get_version j = (case p_version sample_props of None \<Rightarrow> str ''1.0.0''
          | Some v \<Rightarrow> if v = [] then str ''1.0.0'' else v)"
    by blast
  ultimately show ?thesis
    using date_2023_wf by (simp add: sample_props_other_def sample_props_def str_def)
qed

text \<open>
  Claim C2 as stated fails where the input gives the empty string as its version: the
  alias is valid and the call succeeds, the spec's defaulting (only an absent version
  is defaulted) keeps the empty string, and the \<open>version\<close> accessor returns "1.0.0".
\<close>

theorem create_empty_version_is_defaulted:
  "valid_alias (p_alias (sample_props\<lparr>p_version := Some []\<rparr>)) \<and>
   isSuccess (fst (create (sample_props\<lparr>p_version := Some []\<rparr>) sample_world)) \<and>
   spec_defaulted_version (p_version (sample_props\<lparr>p_version := Some []\<rparr>)) = [] \<and>
   get_version (the (Result_value
        (fst (create (sample_props\<lparr>p_version := Some []\<rparr>) sample_world)))) = str ''1.0.0'' \<and>
   get_version (the (Result_value
        (fst (create (sample_props\<lparr>p_version := Some []\<rparr>) sample_world)))) \<noteq>
     spec_defaulted_version (p_version (sample_props\<lparr>p_version := Some []\<rparr>))"
proof -
  have v: "valid_alias (p_alias (sample_props\<lparr>p_version := Some []\<rparr>))"
    using sample_alias_valid by simp
  show ?thesis
    using v
    by (simp add: create_valid [OF v] get_version_def or_string_def spec_defaulted_version_def
        str_def)
qed

section \<open>Defaults and the creation time\<close>

text \<open>
  Claim C5. For every successful call of \<open>Identity.create\<close>: when \<open>metadata\<close> is
  omitted the metadata accessor returns the empty mapping; when \<open>version\<close> is omitted
  the version field is "1.0.0"; when \<open>createdAt\<close> is omitted the createdAt field is
  the value of the one clock reading the call takes; when \<open>createdAt\<close> is supplied the
  clock is not read and the accessor returns that timestamp, in the later revision as
  the copy \<open>new Date\<close> makes of it, which is equal to it for every time value a Date
  can hold.
\<close>

theorem create_defaults:
  "(create_r1 p w = (Result_success i1, w1) \<longrightarrow>
      (p_metadata p = None \<longrightarrow> get_metadata_r1 i1 = Map.empty) \<and>
      (p_version p = None \<longrightarrow> version (toJSON_r1 i1) = Some (str ''1.0.0'')) \<and>
      (p_createdAt p = None \<longrightarrow>
         get_createdAt_r1 i1 = clock w (clock_reads w) \<and> clock_reads w1 = Suc (clock_reads w)) \<and>
      (\<forall>d. p_createdAt p = Some d \<longrightarrow>
         get_createdAt_r1 i1 = d \<and> clock_reads w1 = clock_reads w)) \<and>
   (create p w = (Result_success i, w') \<longrightarrow>
      (p_metadata p = None \<longrightarrow> get_metadata i = Map.empty) \<and>
      (p_version p = None \<longrightarrow>
         version (toJSON i) = Some (str ''1.0.0'') \<and> get_version i = str ''1.0.0'') \<and>
      (p_createdAt p = None \<longrightarrow>
         get_createdAt i = clock w (clock_reads w) \<and> clock_reads w' = Suc (clock_reads w)) \<and>
      (\<forall>d. p_createdAt p = Some d \<longrightarrow>
         get_createdAt i = new_Date_of d \<and> (Date_wf d \<longrightarrow> get_createdAt i = d) \<and>
         clock_reads w' = clock_reads w))"
proof (intro conjI impI)
  assume a: "create_r1 p w = (Result_success i1, w1)"
  then have v: "valid_alias (p_alias p)" by (rule create_r1_success_valid)
  from a show "p_metadata p = None \<Longrightarrow> get_metadata_r1 i1 = Map.empty"
    by (auto simp: create_r1_valid [OF v] get_metadata_r1_def or_object_def)
  from a show "p_version p = None \<Longrightarrow> version (toJSON_r1 i1) = Some (str ''1.0.0'')"
    by (auto simp: create_r1_valid [OF v] toJSON_r1_def or_string_def)
  from a show "p_createdAt p = None \<Longrightarrow> get_createdAt_r1 i1 = clock w (clock_reads w)"
    by (auto simp: create_r1_valid [OF v] get_createdAt_r1_def)
  from a show "p_createdAt p = None \<Longrightarrow> clock_reads w1 = Suc (clock_reads w)"
    by (auto simp: create_r1_valid [OF v])
  from a show "\<forall>d. p_createdAt p = Some d \<longrightarrow>
      get_createdAt_r1 i1 = d \<and> clock_reads w1 = clock_reads w"
    by (auto simp: create_r1_valid [OF v] get_createdAt_r1_def)
next
  assume a: "create p w = (Result_success i, w')"
  then have v: "valid_alias (p_alias p)" by (rule create_success_valid)
  from a show "p_metadata p = None \<Longrightarrow> get_metadata i = Map.empty"
    by (auto simp: create_valid [OF v] get_metadata_def or_object_def)
  from a show "p_version p = None \<Longrightarrow> version (toJSON i) = Some (str ''1.0.0'')"
    by (auto simp: create_valid [OF v] toJSON_def or_string_def)
  from a show "p_version p = None \<Longrightarrow> get_version i = str ''1.0.0''"
    by (auto simp: create_valid [OF v] get_version_def or_string_def str_def)
  from a show "p_createdAt p = None \<Longrightarrow> get_createdAt i = clock w (clock_reads w)"
    by (auto simp: create_valid [OF v] get_createdAt_def)
  from a show "p_createdAt p = None \<Longrightarrow> clock_reads w' = Suc (clock_reads w)"
    by (auto simp: create_valid [OF v])
  from a show "\<forall>d. p_createdAt p = Some d \<longrightarrow>
         get_createdAt i = new_Date_of d \<and> (Date_wf d \<longrightarrow> get_createdAt i = d) \<and>
         clock_reads w' = clock_reads w"
    by (auto simp: create_valid [OF v] get_createdAt_def Date_wf_new_Date_of)
qed

theorem create_defaults_witness:
  "get_metadata (the (Result_value (fst (create sample_props sample_world)))) = Map.empty \<and>
   get_version (the (Result_value (fst (create sample_props sample_world)))) = str ''1.0.0'' \<and>
   get_createdAt (the (Result_value (fst (create sample_props sample_world)))) =
     Date (Some 1700000000000) \<and>
   clock_reads (snd (create sample_props sample_world)) = 1 \<and>
   get_createdAt (the (Result_value (fst (create sample_props_other sample_world)))) = date_2023"
proof -
  obtain i w' where c: "create sample_props sample_world = (Result_success i, w')"
    by (simp add: create_valid sample_alias_valid)
  obtain j w'' where d: "create sample_props_other sample_world = (Result_success j, w'')"
    by (simp add: create_valid sample_other_alias_valid)
  from create_defaults [where p = sample_props and w = sample_world and i = i and w' = w'] c
  have "get_metadata i = Map.empty" "get_version i = str ''1.0.0''"
    "get_createdAt i = Date (Some 1700000000000)" "clock_reads w' = 1"
    by (simp_all add: sample_props_def sample_world_def)
  moreover
  from create_defaults [where p = sample_props_other and w = sample_world and i = j and w' = w'']
    d date_2023_wf
  have "get_createdAt j = date_2023"
    by (simp add: sample_props_other_def Date_wf_new_Date_of)
  ultimately show ?thesis using c d by simp
qed

text \<open>
  Claim C7, as amended. \<open>Identity.create\<close> does not validate \<open>createdAt\<close>: whether it
  succeeds is the same whatever \<open>createdAt\<close> is replaced with, and for a valid alias
  and a supplied \<open>createdAt\<close> it returns a success result whose createdAt is the
  supplied Date (the earlier revision) or the copy \<open>new Date\<close> makes of it (the later
  one), which is a valid timestamp exactly when the supplied one is. So a \<open>createdAt\<close>
  that is an Invalid Date gives a success result holding an Invalid Date.
\<close>

theorem create_accepts_any_createdAt:
  "(isSuccess (fst (create_r1 (p\<lparr>p_createdAt := c\<rparr>) w)) \<longleftrightarrow> isSuccess (fst (create_r1 p w))) \<and>
   (isSuccess (fst (create (p\<lparr>p_createdAt := c\<rparr>) w)) \<longleftrightarrow> isSuccess (fst (create p w))) \<and>
   (valid_alias (p_alias p) \<and> p_createdAt p = Some d \<longrightarrow>
      (\<exists>i1 w1. create_r1 p w = (Result_success i1, w1) \<and> get_createdAt_r1 i1 = d) \<and>
      (\<exists>i w'. create p w = (Result_success i, w') \<and> get_createdAt i = new_Date_of d \<and>
         (valid_Date (get_createdAt i) \<longleftrightarrow> valid_Date d)))"
proof (cases "valid_alias (p_alias p)")
  case True
  then show ?thesis
    by (simp add: create_valid create_r1_valid get_createdAt_def get_createdAt_r1_def
        valid_Date_new_Date_of)
next
  case False
  then show ?thesis by (simp add: create_invalid create_r1_invalid)
qed

theorem create_accepts_any_createdAt_witness:
  "isSuccess (fst (create (sample_props\<lparr>p_createdAt := Some (Date None)\<rparr>) sample_world)) \<and>
   get_createdAt (the (Result_value
        (fst (create (sample_props\<lparr>p_createdAt := Some (Date None)\<rparr>) sample_world)))) = Date None"
proof -
  have "valid_alias (p_alias (sample_props\<lparr>p_createdAt := Some (Date None)\<rparr>)) \<and>
      p_createdAt (sample_props\<lparr>p_createdAt := Some (Date None)\<rparr>) = Some (Date None)"
    using sample_alias_valid by simp
  with create_accepts_any_createdAt
    [where p = "sample_props\<lparr>p_createdAt := Some (Date None)\<rparr>" and w = sample_world
      and d = "Date None", THEN conjunct2, THEN conjunct2]
  obtain i w' where
    "create (sample_props\<lparr>p_createdAt := Some (Date None)\<rparr>) sample_world = (Result_success i, w')"
    "get_createdAt i = new_Date_of (Date None)"
    by blast
  then show ?thesis by (simp add: new_Date_of_def TimeClip_def)
qed

text \<open>
  Claim C7 as stated fails for the input of the spec's first example with an Invalid
  Date as its \<open>createdAt\<close>: the call succeeds, and the createdAt of the instance it
  wraps is not a valid timestamp.
\<close>

theorem create_invalid_createdAt_succeeds:
  "isSuccess (fst (create (sample_props\<lparr>p_createdAt := Some (Date None)\<rparr>) sample_world)) \<and>
   \<not> valid_Date (get_createdAt (the (Result_value
        (fst (create (sample_props\<lparr>p_createdAt := Some (Date None)\<rparr>) sample_world)))))"
proof -
  have v: "valid_alias (p_alias (sample_props\<lparr>p_createdAt := Some (Date None)\<rparr>))"
    using sample_alias_valid by simp
  show ?thesis
    by (simp add: create_valid [OF v] get_createdAt_def new_Date_of_def TimeClip_def
        valid_Date_def)
qed

section \<open>Serialization\<close>

text \<open>
  Claim C6. The round trip: for every instance a successful \<open>Identity.create\<close> gives,
  \<open>create\<close> called with the fields of the instance's snapshot (\<open>toJSON\<close>) succeeds, in
  any world, and the snapshot of the new instance has the same fields as the first
  one. In the earlier revision the two snapshots are equal. In the later revision they
  are equal but for the timestamp, which is the copy \<open>new Date\<close> makes of the first
  one; that copy is equal to it whenever the first \<open>createdAt\<close> was supplied, and
  whenever it holds a time value a Date can hold.
\<close>

theorem create_toJSON_round_trip:
  "(create_r1 p w = (Result_success i1, w1) \<longrightarrow>
      (\<exists>j w3. create_r1 (props_of_snapshot (toJSON_r1 i1)) w2 = (Result_success j, w3) \<and>
         toJSON_r1 j = toJSON_r1 i1)) \<and>
   (create p w = (Result_success i, w') \<longrightarrow>
      (\<exists>j w3. create (props_of_snapshot (toJSON i)) w2 = (Result_success j, w3) \<and>
         toJSON j = (toJSON i)\<lparr>createdAt := new_Date_of (createdAt (toJSON i))\<rparr> \<and>
         (Date_wf (createdAt (toJSON i)) \<longrightarrow> toJSON j = toJSON i) \<and>
         (p_createdAt p \<noteq> None \<longrightarrow> toJSON j = toJSON i)))"
proof (intro conjI impI)
  assume a: "create_r1 p w = (Result_success i1, w1)"
  then have v: "valid_alias (p_alias p)" by (rule create_r1_success_valid)
  from a have i1: "alias' (props_r1 i1) = p_alias p"
     "metadata (props_r1 i1) = Some (or_object (p_metadata p) Map.empty)"
     "version (props_r1 i1) = Some (or_string (p_version p) (str ''1.0.0''))"
     "privateKeyHex (props_r1 i1) = Some (publicKeyHex (props_r1 i1))"
    by (auto simp: create_r1_valid [OF v])
  have v2: "valid_alias (p_alias (props_of_snapshot (toJSON_r1 i1)))"
    using v i1 by (simp add: props_of_snapshot_def toJSON_r1_def)
  show "\<exists>j w3. create_r1 (props_of_snapshot (toJSON_r1 i1)) w2 = (Result_success j, w3) \<and>
         toJSON_r1 j = toJSON_r1 i1"
    using i1
    by (subst create_r1_valid [OF v2])
      (simp add: props_of_snapshot_def toJSON_r1_def or_object_def or_string_default_fixed)
next
  assume a: "create p w = (Result_success i, w')"
  then have v: "valid_alias (p_alias p)" by (rule create_success_valid)
  from a have i: "alias' (props i) = p_alias p"
     "metadata (props i) = Some (or_object (p_metadata p) Map.empty)"
     "version (props i) = Some (or_string (p_version p) (str ''1.0.0''))"
    by (auto simp: create_valid [OF v])
  from a have wf: "p_createdAt p \<noteq> None \<Longrightarrow> Date_wf (createdAt (props i))"
    by (auto simp: create_valid [OF v] Date_wf_new_Date_of_self)
  have v2: "valid_alias (p_alias (props_of_snapshot (toJSON i)))"
    using v i by (simp add: props_of_snapshot_def toJSON_def)
  show "\<exists>j w3. create (props_of_snapshot (toJSON i)) w2 = (Result_success j, w3) \<and>
         toJSON j = (toJSON i)\<lparr>createdAt := new_Date_of (createdAt (toJSON i))\<rparr> \<and>
         (Date_wf (createdAt (toJSON i)) \<longrightarrow> toJSON j = toJSON i) \<and>
         (p_createdAt p \<noteq> None \<longrightarrow> toJSON j = toJSON i)"
    using i wf
    by (subst create_valid [OF v2])
      (auto simp: props_of_snapshot_def toJSON_def or_object_def or_string_default_fixed
        Date_wf_new_Date_of)
qed

theorem create_toJSON_round_trip_witness:
  "toJSON (the (Result_value (fst (create
      (props_of_snapshot (toJSON (the (Result_value (fst (create sample_props_other sample_world))))))
      sample_world)))) =
   toJSON (the (Result_value (fst (create sample_props_other sample_world))))"
proof -
  obtain i w' where c: "create sample_props_other sample_world = (Result_success i, w')"
    by (simp add: create_valid sample_other_alias_valid)
  have wf: "Date_wf (createdAt (toJSON i))"
    using c unfolding create_valid [OF sample_other_alias_valid]
    by (auto simp: toJSON_def Date_wf_new_Date_of_self sample_props_other_def)
  from create_toJSON_round_trip
    [where p = sample_props_other and w = sample_world and i = i and w' = w'
      and ?w2.0 = sample_world] c wf
  obtain j w3 where "create (props_of_snapshot (toJSON i)) sample_world = (Result_success j, w3)"
    "toJSON j = toJSON i"
    by blast
  with c show ?thesis by simp
qed

text \<open>
  Claim C9. No accessor, \<open>toJSON\<close> or \<open>toString\<close> call changes the record an instance
  holds: after any sequence of such calls the instance, and so every field of it, is
  what it was; a \<open>toJSON\<close> call after any such sequence returns what it returns before
  it; and two successive \<open>toJSON\<close> calls on one instance return equal snapshots. This
  holds for every instance, a result of \<open>create\<close> or not, for every encoder behind
  \<open>toString\<close>, and in both revisions.
\<close>

theorem accessors_leave_instance_unchanged:
  "snd (calls_r1 sf ms1 this1) = this1 \<and>
   fst (call_r1 sf M1_toJSON (snd (calls_r1 sf ms1 this1))) = fst (call_r1 sf M1_toJSON this1) \<and>
   fst (calls_r1 sf [M1_toJSON, M1_toJSON] this1) =
     [R_IIdentity (toJSON_r1 this1), R_IIdentity (toJSON_r1 this1)] \<and>
   snd (calls sf ms this) = this \<and>
   fst (call sf M_toJSON (snd (calls sf ms this))) = fst (call sf M_toJSON this) \<and>
   fst (calls sf [M_toJSON, M_toJSON] this) =
     [R_IIdentity (toJSON this), R_IIdentity (toJSON this)]"
  by (simp add: snd_calls snd_calls_r1)

end
